theory Spec2Isabelle
  imports Main "HOL-Library.Word"
begin

unbundle bit_operations_syntax

section \<open>Data model of uKernel.h\<close>

text \<open>
  A pointer to a task descriptor is an address, \<open>NULL\<close> being address 0; a pointer to a
  task body (\<open>TaskBody\<close>) is modelled the same way. Every address other than \<open>NULL\<close>
  holds a descriptor: the descriptors are caller-owned memory and the kernel never
  allocates one.
\<close>

type_synonym addr = nat
type_synonym TaskBody = nat

abbreviation (input) NULL :: nat where
  "NULL \<equiv> 0"

text \<open>
  \<open>uKernelTaskStatus\<close> is a C enum whose enumerators are 0x00, 0x01, 0x02, 0x05, 0x07
  and 0xFF. It is modelled as an unsigned 8-bit value, the smallest type holding all of
  them; the comparisons of the source are then unsigned comparisons.
\<close>

type_synonym uKernelTaskStatus = "8 word"

abbreviation (input) uKernel_PAUSED :: uKernelTaskStatus where
  "uKernel_PAUSED \<equiv> 0x00"

abbreviation (input) uKernel_SCHEDULED :: uKernelTaskStatus where
  "uKernel_SCHEDULED \<equiv> 0x01"

abbreviation (input) uKernel_ONETIME :: uKernelTaskStatus where
  "uKernel_ONETIME \<equiv> 0x02"

abbreviation (input) uKernel_IMMEDIATESTART :: uKernelTaskStatus where
  "uKernel_IMMEDIATESTART \<equiv> 0x05"

abbreviation (input) uKernel_ONETIME_IMMEDIATESTART :: uKernelTaskStatus where
  "uKernel_ONETIME_IMMEDIATESTART \<equiv> 0x07"

abbreviation (input) uKernel_ERROR :: uKernelTaskStatus where
  "uKernel_ERROR \<equiv> 0xFF"

abbreviation (input) MAX_TASKS_NUMBER :: "8 word" where
  "MAX_TASKS_NUMBER \<equiv> 255"

abbreviation (input) MAX_TASK_INTERVAL :: "32 word" where
  "MAX_TASK_INTERVAL \<equiv> 3600000"

record uKernelTaskDescriptor =
  taskPointer :: TaskBody
  userTasksInterval :: "32 word"
  plannedTask :: "32 word"
  taskStatus :: uKernelTaskStatus
  pTaskNext :: addr

text \<open>
  The globals of uKernel.c, together with the memory that holds the descriptors.
  \<open>initialized\<close>, \<open>counterMs\<close> and \<open>numberTasks\<close> are \<open>_initialized\<close>, \<open>_counterMs\<close>
  and \<open>_numberTasks\<close>.
\<close>

record kstate =
  initialized :: "8 word"
  counterMs :: "32 word"
  numberTasks :: "8 word"
  pTaskSchedule :: addr
  pTaskFirst :: addr
  heap :: "addr \<Rightarrow> uKernelTaskDescriptor"

text \<open>Dereferencing \<open>NULL\<close> is the one fault the model tracks.\<close>

datatype error = NullDeref

section \<open>Operations of uKernel.c\<close>

definition uKernelInit :: "kstate \<Rightarrow> kstate" where
  "uKernelInit s =
     s\<lparr>initialized := 1, counterMs := 0, numberTasks := 0, pTaskSchedule := NULL\<rparr>"

text \<open>
  The search loop of \<open>uKernelAddTask\<close> and of \<open>uKernelRemoveTask\<close>:
  \<^verbatim>\<open>while (p->pTaskNext != target) p = p->pTaskNext;\<close>
  It may run forever (result \<open>None\<close>) and it dereferences \<open>p\<close> at each step.
\<close>

partial_function (option) ring_search ::
  "(addr \<Rightarrow> uKernelTaskDescriptor) \<Rightarrow> addr \<Rightarrow> addr \<Rightarrow> (error + addr) option" where
  "ring_search h target p =
     (if p = NULL then Some (Inl NullDeref)
      else if pTaskNext (h p) \<noteq> target then ring_search h target (pTaskNext (h p))
      else Some (Inr p))"

definition set_next ::
  "(addr \<Rightarrow> uKernelTaskDescriptor) \<Rightarrow> addr \<Rightarrow> addr \<Rightarrow> (addr \<Rightarrow> uKernelTaskDescriptor)" where
  "set_next h p q = h(p := (h p)\<lparr>pTaskNext := q\<rparr>)"

text \<open>The part of \<open>uKernelAddTask\<close> common to both ways of linking the descriptor in.\<close>

definition add_common ::
  "kstate \<Rightarrow> addr \<Rightarrow> TaskBody \<Rightarrow> 32 word \<Rightarrow> uKernelTaskStatus \<Rightarrow> kstate" where
  "add_common s pTaskDescriptor userTask taskInterval taskStatus' =
     s\<lparr>heap := (heap s)(pTaskDescriptor := (heap s pTaskDescriptor)
          \<lparr>taskPointer := userTask,
           userTasksInterval := taskInterval,
           plannedTask := counterMs s + (if taskStatus' AND 0x04 \<noteq> 0 then 0 else taskInterval),
           taskStatus := taskStatus' AND 0x03\<rparr>),
       numberTasks := numberTasks s + 1\<rparr>"

definition uKernelAddTask ::
  "kstate \<Rightarrow> addr \<Rightarrow> TaskBody \<Rightarrow> 32 word \<Rightarrow> uKernelTaskStatus \<Rightarrow> (error + bool \<times> kstate) option" where
  "uKernelAddTask s pTaskDescriptor userTask taskInterval taskStatus' =
     (if initialized s = 0 \<or> numberTasks s = MAX_TASKS_NUMBER \<or> userTask = NULL
      then Some (Inr (False, s))
      else
        let taskInterval = (if taskInterval < 1 \<or> taskInterval > MAX_TASK_INTERVAL
                            then 50 else taskInterval);
            taskStatus' = (if taskStatus' > uKernel_ONETIME_IMMEDIATESTART
                           then uKernel_SCHEDULED else taskStatus')
        in
          if pTaskDescriptor \<noteq> NULL then
            if pTaskFirst s \<noteq> NULL then
              (case ring_search (heap s) (pTaskFirst s) (pTaskSchedule s) of
                 None \<Rightarrow> None
               | Some (Inl e) \<Rightarrow> Some (Inl e)
               | Some (Inr pTaskWork) \<Rightarrow>
                   Some (Inr (True,
                     add_common
                       (s\<lparr>heap := set_next (set_next (heap s) pTaskWork pTaskDescriptor)
                                    pTaskDescriptor (pTaskFirst s)\<rparr>)
                       pTaskDescriptor userTask taskInterval taskStatus')))
            else
              Some (Inr (True,
                add_common
                  (s\<lparr>pTaskFirst := pTaskDescriptor, pTaskSchedule := pTaskDescriptor,
                     heap := set_next (heap s) pTaskDescriptor pTaskDescriptor\<rparr>)
                  pTaskDescriptor userTask taskInterval taskStatus'))
          else Some (Inr (True, s\<lparr>pTaskFirst := NULL, pTaskSchedule := NULL\<rparr>)))"

definition uKernelRemoveTask :: "kstate \<Rightarrow> addr \<Rightarrow> (error + bool \<times> kstate) option" where
  "uKernelRemoveTask s pTaskDescriptor =
     (if initialized s = 0 \<or> numberTasks s = 0 \<or> pTaskDescriptor = NULL
      then Some (Inr (False, s))
      else
        (case ring_search (heap s) pTaskDescriptor (pTaskFirst s) of
           None \<Rightarrow> None
         | Some (Inl e) \<Rightarrow> Some (Inl e)
         | Some (Inr pTaskCurr) \<Rightarrow>
             let s1 = (if pTaskNext (heap s pTaskCurr) = pTaskFirst s
                       then s\<lparr>pTaskFirst :=
                                pTaskNext (heap s (pTaskNext (heap s pTaskCurr)))\<rparr>
                       else s\<lparr>heap := set_next (heap s) pTaskCurr
                                        (pTaskNext (heap s pTaskDescriptor))\<rparr>)
             in Some (Inr (True, s1\<lparr>numberTasks := numberTasks s1 - 1\<rparr>))))"

definition uKernelSetTask ::
  "kstate \<Rightarrow> addr \<Rightarrow> 32 word \<Rightarrow> uKernelTaskStatus \<Rightarrow> bool \<times> kstate" where
  "uKernelSetTask s pTaskDescriptor taskInterval tStatus =
     (if initialized s = 0 \<or> numberTasks s = MAX_TASKS_NUMBER \<or> pTaskDescriptor = NULL
      then (False, s)
      else
        let d = (heap s pTaskDescriptor)\<lparr>taskStatus := tStatus\<rparr>;
            d' = (if tStatus = uKernel_SCHEDULED
                  then (if taskInterval = 0
                        then d\<lparr>plannedTask := counterMs s + userTasksInterval d\<rparr>
                        else d\<lparr>plannedTask := counterMs s + taskInterval\<rparr>)
                  else d)
        in (True, s\<lparr>heap := (heap s)(pTaskDescriptor := d')\<rparr>))"

definition uKernelPauseTask :: "kstate \<Rightarrow> addr \<Rightarrow> bool \<times> kstate" where
  "uKernelPauseTask s pTaskDescriptor = uKernelSetTask s pTaskDescriptor 0 uKernel_PAUSED"

definition uKernelResumeTask :: "kstate \<Rightarrow> addr \<Rightarrow> uKernelTaskStatus \<Rightarrow> bool \<times> kstate" where
  "uKernelResumeTask s pTaskDescriptor taskStatus' =
     uKernelSetTask s pTaskDescriptor 0 taskStatus'"

definition uKernelModifyTask ::
  "kstate \<Rightarrow> addr \<Rightarrow> 32 word \<Rightarrow> uKernelTaskStatus \<Rightarrow> bool \<times> kstate" where
  "uKernelModifyTask s pTaskDescriptor taskInterval tStatus =
     (if initialized s = 0 \<or> numberTasks s = MAX_TASKS_NUMBER \<or> pTaskDescriptor = NULL
      then (False, s)
      else if tStatus > uKernel_ONETIME_IMMEDIATESTART then (False, s)
      else
        let d = (heap s pTaskDescriptor)
                  \<lparr>userTasksInterval := taskInterval, taskStatus := tStatus\<rparr>;
            d' = (if tStatus = uKernel_SCHEDULED \<or> tStatus = uKernel_ONETIME
                  then d\<lparr>plannedTask := counterMs s + taskInterval\<rparr>
                  else d\<lparr>plannedTask := 0\<rparr>)
        in (True, s\<lparr>heap := (heap s)(pTaskDescriptor := d')\<rparr>))"

definition uKernelGetTaskStatus :: "kstate \<Rightarrow> addr \<Rightarrow> uKernelTaskStatus" where
  "uKernelGetTaskStatus s pTaskDescriptor =
     (if initialized s = 0 \<or> numberTasks s = MAX_TASKS_NUMBER \<or> pTaskDescriptor = NULL
      then uKernel_ERROR
      else taskStatus (heap s pTaskDescriptor))"

section \<open>The dispatch loop\<close>

text \<open>
  \<open>uKernelScheduler\<close> is \<^verbatim>\<open>while (1) { ... ClrWdt(); }\<close>. One pass of the loop body is
  \<open>uKernelScheduler_iteration\<close>. What a task body does to the kernel state is not in
  uKernel.c: it is the parameter \<open>call\<close>, a function from the task pointer and the state
  at the call to the state at the return, or to a fault. The calls the loop makes to the
  outside (a task body, named with the descriptor it was read from, and \<open>ClrWdt\<close>) are
  returned as a list of events, in order; after a fault nothing more is recorded.
  \<open>pTaskSchedule\<close> is a global, so it is read again after each call of a task body.
\<close>

datatype event = Call addr TaskBody | ClrWdt

definition advance_cursor :: "kstate \<Rightarrow> kstate" where
  "advance_cursor s =
     (if pTaskSchedule s \<noteq> NULL
      then s\<lparr>pTaskSchedule := pTaskNext (heap s (pTaskSchedule s))\<rparr>
      else s)"

definition uKernelScheduler_iteration ::
  "(TaskBody \<Rightarrow> kstate \<Rightarrow> error + kstate) \<Rightarrow> kstate \<Rightarrow> event list \<times> (error + kstate)" where
  "uKernelScheduler_iteration call s =
     (if pTaskSchedule s \<noteq> NULL \<and> numberTasks s \<noteq> 0 then
        let p = pTaskSchedule s; d = heap s p in
        if taskStatus d > uKernel_PAUSED then
          if 0 \<le> sint (counterMs s - plannedTask d) then
            if taskStatus d AND uKernel_ONETIME \<noteq> 0 then
              (case call (taskPointer d) s of
                 Inl e \<Rightarrow> ([Call p (taskPointer d)], Inl e)
               | Inr s1 \<Rightarrow>
                   if pTaskSchedule s1 = NULL
                   then ([Call p (taskPointer d)], Inl NullDeref)
                   else ([Call p (taskPointer d), ClrWdt],
                         Inr (advance_cursor
                           (s1\<lparr>heap := (heap s1)(pTaskSchedule s1 :=
                                 (heap s1 (pTaskSchedule s1))\<lparr>taskStatus := uKernel_PAUSED\<rparr>)\<rparr>))))
            else
              (case call (taskPointer d)
                      (s\<lparr>heap := (heap s)(p :=
                            d\<lparr>plannedTask := counterMs s + userTasksInterval d\<rparr>)\<rparr>) of
                 Inl e \<Rightarrow> ([Call p (taskPointer d)], Inl e)
               | Inr s1 \<Rightarrow> ([Call p (taskPointer d), ClrWdt], Inr (advance_cursor s1)))
          else ([ClrWdt], Inr (advance_cursor s))
        else ([ClrWdt], Inr (advance_cursor s))
      else ([ClrWdt], Inr s))"

text \<open>
  The loop never returns, so what is modelled is any finite number of its iterations.
  \<open>_counterMs\<close> is incremented outside uKernel.c: the list gives the value the counter
  has at each iteration, one element per iteration.
\<close>

fun uKernelScheduler ::
  "(TaskBody \<Rightarrow> kstate \<Rightarrow> error + kstate) \<Rightarrow> 32 word list \<Rightarrow> kstate
     \<Rightarrow> event list \<times> (error + kstate)" where
  "uKernelScheduler call [] s = ([], Inr s)"
| "uKernelScheduler call (c # cs) s =
     (case uKernelScheduler_iteration call (s\<lparr>counterMs := c\<rparr>) of
        (tr, Inl e) \<Rightarrow> (tr, Inl e)
      | (tr, Inr s1) \<Rightarrow>
          (case uKernelScheduler call cs s1 of (tr', r) \<Rightarrow> (tr @ tr', r)))"





section \<open>The blocking delay\<close>

text \<open>
  \<^verbatim>\<open>uint32_t newTime = _counterMs + delay; while (_counterMs < newTime);\<close>
  The counter is incremented by the tick source, one millisecond at a time, and the loop
  sees every value of it: a poll that finds the counter below \<open>newTime\<close> is followed by
  the poll of the next counter value. \<open>uKernelDelayMiliseconds\<close> returns the state in
  which the loop exits, so the counter of that state tells how long the delay lasted.
\<close>

function delay_poll :: "32 word \<Rightarrow> 32 word \<Rightarrow> 32 word" where
  "delay_poll newTime c = (if c < newTime then delay_poll newTime (c + 1) else c)"
  by pat_completeness auto
termination
proof (relation "measure (\<lambda>(newTime, c). unat newTime - unat c)")
  show "wf (measure (\<lambda>(newTime, c). unat newTime - unat c))"
    by simp
next
  fix newTime c :: "32 word"
  assume below: "c < newTime"
  then have "unat c < unat newTime"
    by (simp add: word_less_nat_alt)
  moreover have "unat (c + 1) = unat c + 1"
    using below by unat_arith
  ultimately show "((newTime, c + 1), (newTime, c))
      \<in> measure (\<lambda>(newTime, c). unat newTime - unat c)"
    by simp
qed

definition uKernelDelayMiliseconds :: "kstate \<Rightarrow> 16 word \<Rightarrow> kstate" where
  "uKernelDelayMiliseconds s delay =
     s\<lparr>counterMs := delay_poll (counterMs s + ucast delay) (counterMs s)\<rparr>"

section \<open>Reachable states\<close>

text \<open>
  The states the kernel reaches after \<open>uKernelInit\<close> (called in any state), with the
  set of descriptors that a call of \<open>uKernelAddTask\<close> has registered and no later call
  has removed or purged. The status handed to \<open>uKernelResumeTask\<close> and
  \<open>uKernelModifyTask\<close> is restricted here to the two-bit values 0 to 3; the tick source
  may set the counter to any value.
\<close>

inductive reachable ::
  "(TaskBody \<Rightarrow> kstate \<Rightarrow> error + kstate) \<Rightarrow> kstate \<Rightarrow> addr set \<Rightarrow> bool"
  for call :: "TaskBody \<Rightarrow> kstate \<Rightarrow> error + kstate" where
  r_init: "reachable call (uKernelInit s) {}"
| r_add: "reachable call s R \<Longrightarrow> d \<noteq> NULL
    \<Longrightarrow> uKernelAddTask s d f i st = Some (Inr (True, s'))
    \<Longrightarrow> reachable call s' (insert d R)"
| r_purge: "reachable call s R
    \<Longrightarrow> uKernelAddTask s NULL f i st = Some (Inr (True, s'))
    \<Longrightarrow> reachable call s' {}"
| r_remove: "reachable call s R
    \<Longrightarrow> uKernelRemoveTask s d = Some (Inr (True, s'))
    \<Longrightarrow> reachable call s' (R - {d})"
| r_pause: "reachable call s R \<Longrightarrow> uKernelPauseTask s d = (b, s')
    \<Longrightarrow> reachable call s' R"
| r_resume: "reachable call s R \<Longrightarrow> st \<le> 3 \<Longrightarrow> uKernelResumeTask s d st = (b, s')
    \<Longrightarrow> reachable call s' R"
| r_modify: "reachable call s R \<Longrightarrow> st \<le> 3 \<Longrightarrow> uKernelModifyTask s d i st = (b, s')
    \<Longrightarrow> reachable call s' R"
| r_tick: "reachable call s R \<Longrightarrow> reachable call (s\<lparr>counterMs := c\<rparr>) R"
| r_dispatch: "reachable call s R
    \<Longrightarrow> uKernelScheduler_iteration call s = (tr, Inr s')
    \<Longrightarrow> reachable call s' R"

section \<open>Example states\<close>

text \<open>
  The state at program start: the globals have static storage, so they are zero, and
  \<open>pTaskFirst\<close> is initialised to \<open>NULL\<close>. The descriptors of the examples start
  zeroed as well.
\<close>

definition zero_descriptor :: uKernelTaskDescriptor where
  "zero_descriptor =
     \<lparr>taskPointer = NULL, userTasksInterval = 0, plannedTask = 0,
      taskStatus = 0, pTaskNext = NULL\<rparr>"

definition boot_state :: kstate where
  "boot_state =
     \<lparr>initialized = 0, counterMs = 0, numberTasks = 0,
      pTaskSchedule = NULL, pTaskFirst = NULL, heap = (\<lambda>_. zero_descriptor)\<rparr>"

text \<open>
  One task: the state after \<open>uKernelInit\<close> and the registration of descriptor 1 with
  task body 1, interval 100 and status \<open>uKernel_SCHEDULED\<close>. Then descriptor 2 and
  descriptor 3 are registered the same way, which gives the ring 1, 2, 3 with head 1.
\<close>

definition one_task_state :: kstate where
  "one_task_state =
     \<lparr>initialized = 1, counterMs = 0, numberTasks = 1,
      pTaskSchedule = 1, pTaskFirst = 1,
      heap = (\<lambda>_. zero_descriptor)(1 :=
        \<lparr>taskPointer = 1, userTasksInterval = 100, plannedTask = 100,
         taskStatus = uKernel_SCHEDULED, pTaskNext = 1\<rparr>)\<rparr>"

definition two_task_state :: kstate where
  "two_task_state =
     \<lparr>initialized = 1, counterMs = 0, numberTasks = 2,
      pTaskSchedule = 1, pTaskFirst = 1,
      heap = (\<lambda>_. zero_descriptor)
        (1 := \<lparr>taskPointer = 1, userTasksInterval = 100, plannedTask = 100,
               taskStatus = uKernel_SCHEDULED, pTaskNext = 2\<rparr>,
         2 := \<lparr>taskPointer = 2, userTasksInterval = 100, plannedTask = 100,
               taskStatus = uKernel_SCHEDULED, pTaskNext = 1\<rparr>)\<rparr>"

definition three_task_state :: kstate where
  "three_task_state =
     \<lparr>initialized = 1, counterMs = 0, numberTasks = 3,
      pTaskSchedule = 1, pTaskFirst = 1,
      heap = (\<lambda>_. zero_descriptor)
        (1 := \<lparr>taskPointer = 1, userTasksInterval = 100, plannedTask = 100,
               taskStatus = uKernel_SCHEDULED, pTaskNext = 2\<rparr>,
         2 := \<lparr>taskPointer = 2, userTasksInterval = 100, plannedTask = 100,
               taskStatus = uKernel_SCHEDULED, pTaskNext = 3\<rparr>,
         3 := \<lparr>taskPointer = 3, userTasksInterval = 100, plannedTask = 100,
               taskStatus = uKernel_SCHEDULED, pTaskNext = 1\<rparr>)\<rparr>"

text \<open>An initialised kernel whose task counter stands at \<open>MAX_TASKS_NUMBER\<close>.\<close>

definition full_state :: kstate where
  "full_state = one_task_state\<lparr>numberTasks := MAX_TASKS_NUMBER\<rparr>"

text \<open>
  The states after \<open>uKernelInit\<close> and one registration of descriptor 1 with task body 1:
  with interval 100 and status \<open>uKernel_ONETIME\<close>; with interval 0 and status
  \<open>uKernel_ONETIME_IMMEDIATESTART\<close>; with interval 0 and status \<open>uKernel_ERROR\<close>.
\<close>

definition onetime_state :: kstate where
  "onetime_state = one_task_state\<lparr>heap := (heap one_task_state)
     (1 := (heap one_task_state 1)\<lparr>taskStatus := uKernel_ONETIME\<rparr>)\<rparr>"

definition immediate_onetime_state :: kstate where
  "immediate_onetime_state = one_task_state\<lparr>heap := (heap one_task_state)
     (1 := (heap one_task_state 1)
        \<lparr>userTasksInterval := 50, plannedTask := 0, taskStatus := 3\<rparr>)\<rparr>"

definition defaulted_state :: kstate where
  "defaulted_state = one_task_state\<lparr>heap := (heap one_task_state)
     (1 := (heap one_task_state 1)\<lparr>userTasksInterval := 50, plannedTask := 50\<rparr>)\<rparr>"

text \<open>
  One task whose \<open>plannedTask\<close> is five below the largest counter value, seen when the
  counter has wrapped around and reached 3.
\<close>

definition wrapped_state :: kstate where
  "wrapped_state = one_task_state\<lparr>counterMs := 3, heap := (heap one_task_state)
     (1 := (heap one_task_state 1)\<lparr>plannedTask := 0xFFFFFFFF - 5\<rparr>)\<rparr>"

section \<open>Status operations at full capacity\<close>

text \<open>
  C10. When \<open>_numberTasks\<close> equals \<open>MAX_TASKS_NUMBER\<close> (255), pausing, resuming and
  modifying a task return false and leave the whole state as it was, and the status query
  returns \<open>uKernel_ERROR\<close>, whatever the descriptor and the initialisation flag are.
\<close>

theorem full_capacity_blocks_status_operations:
  assumes "numberTasks s = MAX_TASKS_NUMBER"
  shows "uKernelPauseTask s d = (False, s)
       \<and> uKernelResumeTask s d st = (False, s)
       \<and> uKernelModifyTask s d i st = (False, s)
       \<and> uKernelGetTaskStatus s d = uKernel_ERROR"
  using assms
  by (simp add: uKernelPauseTask_def uKernelResumeTask_def uKernelSetTask_def
      uKernelModifyTask_def uKernelGetTaskStatus_def)

theorem full_capacity_blocks_status_operations_witness:
  "numberTasks full_state = MAX_TASKS_NUMBER
   \<and> uKernelPauseTask full_state 1 = (False, full_state)
   \<and> uKernelResumeTask full_state 1 uKernel_SCHEDULED = (False, full_state)
   \<and> uKernelModifyTask full_state 1 200 uKernel_SCHEDULED = (False, full_state)
   \<and> uKernelGetTaskStatus full_state 1 = uKernel_ERROR"
proof -
  have full: "numberTasks full_state = MAX_TASKS_NUMBER"
    by (simp add: full_state_def)
  from full_capacity_blocks_status_operations [OF full, of 1 uKernel_SCHEDULED 200] full
  show ?thesis by simp
qed

section \<open>Registration\<close>

lemma one_task_state_registered:
  "uKernelAddTask (uKernelInit boot_state) 1 1 100 uKernel_SCHEDULED
     = Some (Inr (True, one_task_state))"
  by (simp add: uKernelAddTask_def uKernelInit_def boot_state_def one_task_state_def
      add_common_def set_next_def zero_descriptor_def)

lemma two_task_state_registered:
  "uKernelAddTask one_task_state 2 2 100 uKernel_SCHEDULED = Some (Inr (True, two_task_state))"
  by (simp add: uKernelAddTask_def one_task_state_def two_task_state_def
      add_common_def set_next_def zero_descriptor_def ring_search.simps fun_upd_twist)

lemma three_task_state_registered:
  "uKernelAddTask two_task_state 3 3 100 uKernel_SCHEDULED
     = Some (Inr (True, three_task_state))"
  by (simp add: uKernelAddTask_def three_task_state_def two_task_state_def
      add_common_def set_next_def zero_descriptor_def ring_search.simps fun_upd_twist)

lemma onetime_state_registered:
  "uKernelAddTask (uKernelInit boot_state) 1 1 100 uKernel_ONETIME
     = Some (Inr (True, onetime_state))"
  by (simp add: uKernelAddTask_def uKernelInit_def boot_state_def one_task_state_def
      onetime_state_def add_common_def set_next_def zero_descriptor_def)

lemma immediate_onetime_state_registered:
  "uKernelAddTask (uKernelInit boot_state) 1 1 0 uKernel_ONETIME_IMMEDIATESTART
     = Some (Inr (True, immediate_onetime_state))"
  by (simp add: uKernelAddTask_def uKernelInit_def boot_state_def one_task_state_def
      immediate_onetime_state_def add_common_def set_next_def zero_descriptor_def)

lemma defaulted_state_registered:
  "uKernelAddTask (uKernelInit boot_state) 1 1 0 uKernel_ERROR
     = Some (Inr (True, defaulted_state))"
  by (simp add: uKernelAddTask_def uKernelInit_def boot_state_def one_task_state_def
      defaulted_state_def add_common_def set_next_def zero_descriptor_def)

text \<open>
  Registration into an empty ring always returns: the descriptor becomes the head and
  the cursor, and links to itself.
\<close>

lemma uKernelAddTask_empty_ring:
  assumes "initialized s \<noteq> 0" and "numberTasks s \<noteq> MAX_TASKS_NUMBER" and "f \<noteq> NULL"
    and "d \<noteq> NULL" and "pTaskFirst s = NULL"
  shows "\<exists>s'. uKernelAddTask s d f i st = Some (Inr (True, s'))
      \<and> pTaskFirst s' = d \<and> pTaskSchedule s' = d \<and> pTaskNext (heap s' d) = d
      \<and> numberTasks s' = numberTasks s + 1"
  using assms
  by (simp add: uKernelAddTask_def Let_def add_common_def set_next_def)

text \<open>
  C9, as stated, fails: the status 3 is none of the six enumerators, yet a registration
  with it succeeds and stores 3, not \<open>uKernel_SCHEDULED\<close>.
\<close>

theorem uKernelAddTask_status_3_counterexample:
  "uKernelAddTask (uKernelInit boot_state) 1 1 100 3
     = Some (Inr (True, one_task_state\<lparr>heap := (heap one_task_state)
          (1 := (heap one_task_state 1)\<lparr>taskStatus := 3\<rparr>)\<rparr>))"
  by (simp add: uKernelAddTask_def uKernelInit_def boot_state_def one_task_state_def
      add_common_def set_next_def zero_descriptor_def)

text \<open>
  C9, amended. After a successful registration of a descriptor, its stored interval is
  the interval argument if that lies in 1 to \<open>MAX_TASK_INTERVAL\<close> and 50 otherwise, and
  its stored status is \<open>uKernel_SCHEDULED\<close> if the status argument is greater than
  \<open>uKernel_ONETIME_IMMEDIATESTART\<close> (7), and the two low bits of the argument otherwise.
\<close>

theorem uKernelAddTask_normalises:
  assumes "uKernelAddTask s d f i st = Some (Inr (True, s'))" and "d \<noteq> NULL"
  shows "userTasksInterval (heap s' d) = (if i < 1 \<or> i > MAX_TASK_INTERVAL then 50 else i)
       \<and> taskStatus (heap s' d)
           = (if st > uKernel_ONETIME_IMMEDIATESTART then uKernel_SCHEDULED else st AND 0x03)"
  using assms
  by (auto simp: uKernelAddTask_def Let_def add_common_def
      split: if_splits option.splits sum.splits)

theorem uKernelAddTask_normalises_witness:
  "uKernelAddTask (uKernelInit boot_state) 1 1 0 uKernel_ERROR
     = Some (Inr (True, defaulted_state))
   \<and> (1::addr) \<noteq> NULL
   \<and> userTasksInterval (heap defaulted_state 1) = 50
   \<and> taskStatus (heap defaulted_state 1) = uKernel_SCHEDULED"
proof -
  have one: "(1::addr) \<noteq> NULL" by simp
  from uKernelAddTask_normalises [OF defaulted_state_registered one]
  show ?thesis using defaulted_state_registered by simp
qed

text \<open>
  C8, as stated, fails: on a kernel that was never initialised, the call with a null
  descriptor returns false and changes nothing.
\<close>

theorem uKernelAddTask_purge_counterexample:
  "uKernelAddTask boot_state NULL 1 100 uKernel_SCHEDULED = Some (Inr (False, boot_state))"
  by (simp add: uKernelAddTask_def boot_state_def)

text \<open>
  C8, amended. A call of \<open>uKernelAddTask\<close> with a null descriptor first passes the same
  guard as a registration: on a kernel that is not initialised, or whose task counter is
  \<open>MAX_TASKS_NUMBER\<close>, or with a null task body, it returns false and changes nothing.
  Otherwise it returns true and sets \<open>pTaskFirst\<close> and \<open>pTaskSchedule\<close> to \<open>NULL\<close>;
  the task counter and every other part of the state, the descriptors included, stay as
  they were.
\<close>

theorem uKernelAddTask_purge:
  "uKernelAddTask s NULL userTask taskInterval st =
     (if initialized s = 0 \<or> numberTasks s = MAX_TASKS_NUMBER \<or> userTask = NULL
      then Some (Inr (False, s))
      else Some (Inr (True, s\<lparr>pTaskFirst := NULL, pTaskSchedule := NULL\<rparr>)))"
  by (simp add: uKernelAddTask_def Let_def)

theorem uKernelAddTask_purge_witness:
  "uKernelAddTask three_task_state NULL 1 100 uKernel_SCHEDULED
     = Some (Inr (True, three_task_state\<lparr>pTaskFirst := NULL, pTaskSchedule := NULL\<rparr>))
   \<and> numberTasks (three_task_state\<lparr>pTaskFirst := NULL, pTaskSchedule := NULL\<rparr>) = 3"
  using uKernelAddTask_purge [of three_task_state 1 100 uKernel_SCHEDULED]
  by (simp add: three_task_state_def)

section \<open>Initialisation\<close>

lemma uKernelInit_fields:
  "initialized (uKernelInit s) = 1 \<and> counterMs (uKernelInit s) = 0
   \<and> numberTasks (uKernelInit s) = 0 \<and> pTaskSchedule (uKernelInit s) = NULL
   \<and> pTaskFirst (uKernelInit s) = pTaskFirst s \<and> heap (uKernelInit s) = heap s"
  by (simp add: uKernelInit_def)

text \<open>
  C1. \<open>uKernelInit\<close> does not reset \<open>pTaskFirst\<close>. With descriptor 1 registered, a second
  \<open>uKernelInit\<close> leaves \<open>pTaskFirst\<close> at descriptor 1 while \<open>pTaskSchedule\<close> is \<open>NULL\<close>,
  and the next registration takes the branch for a ring that is not empty and
  dereferences the null cursor.
\<close>

theorem uKernelInit_keeps_pTaskFirst:
  "uKernelAddTask (uKernelInit boot_state) 1 1 100 uKernel_SCHEDULED
     = Some (Inr (True, one_task_state))
   \<and> numberTasks (uKernelInit one_task_state) = 0
   \<and> pTaskSchedule (uKernelInit one_task_state) = NULL
   \<and> pTaskFirst (uKernelInit one_task_state) = 1
   \<and> uKernelAddTask (uKernelInit one_task_state) 2 2 100 uKernel_SCHEDULED
       = Some (Inl NullDeref)"
proof -
  have "numberTasks (uKernelInit one_task_state) = 0
      \<and> pTaskSchedule (uKernelInit one_task_state) = NULL
      \<and> pTaskFirst (uKernelInit one_task_state) = 1
      \<and> uKernelAddTask (uKernelInit one_task_state) 2 2 100 uKernel_SCHEDULED
          = Some (Inl NullDeref)"
    by (simp add: uKernelAddTask_def uKernelInit_def one_task_state_def ring_search.simps)
  with one_task_state_registered show ?thesis by (rule conjI)
qed

section \<open>Removal\<close>

text \<open>
  C2. In the ring 1, 2, 3 with head 1, removing descriptor 1 returns true, brings the task
  counter to 2 and moves \<open>pTaskFirst\<close> to descriptor 2, but writes no link: descriptor 3
  still links to descriptor 1, and the dispatch loop goes on calling the task of
  descriptor 1 between those of descriptors 3 and 2.
\<close>

theorem uKernelRemoveTask_head_stays_linked:
  "uKernelRemoveTask three_task_state 1
     = Some (Inr (True, three_task_state\<lparr>pTaskFirst := 2, numberTasks := 2\<rparr>))
   \<and> pTaskNext (heap (three_task_state\<lparr>pTaskFirst := 2, numberTasks := 2\<rparr>) 2) = 3
   \<and> pTaskNext (heap (three_task_state\<lparr>pTaskFirst := 2, numberTasks := 2\<rparr>) 3) = 1
   \<and> fst (uKernelScheduler (\<lambda>f s. Inr s) [100, 100, 100, 300]
        (three_task_state\<lparr>pTaskFirst := 2, numberTasks := 2\<rparr>))
       = [Call 1 1, ClrWdt, Call 2 2, ClrWdt, Call 3 3, ClrWdt, Call 1 1, ClrWdt]"
  by (simp add: uKernelRemoveTask_def three_task_state_def ring_search.simps set_next_def
      uKernelScheduler_iteration_def advance_cursor_def Let_def)

text \<open>
  Removing a descriptor that is not the head does repoint its predecessor: removing
  descriptor 2 from the same ring leaves the closed ring 1, 3.
\<close>

lemma uKernelRemoveTask_inner:
  "uKernelRemoveTask three_task_state 2
     = Some (Inr (True, three_task_state
         \<lparr>numberTasks := 2,
          heap := (heap three_task_state)(1 := (heap three_task_state 1)\<lparr>pTaskNext := 3\<rparr>)\<rparr>))"
  by (simp add: uKernelRemoveTask_def three_task_state_def ring_search.simps set_next_def)

section \<open>Status query\<close>

text \<open>
  C5, as stated, fails: on an initialised kernel whose task counter is 255, the query for
  descriptor 1, whose stored status is \<open>uKernel_SCHEDULED\<close>, returns \<open>uKernel_ERROR\<close>.
\<close>

theorem uKernelGetTaskStatus_full_counterexample:
  "initialized full_state \<noteq> 0 \<and> (1::addr) \<noteq> NULL
   \<and> taskStatus (heap full_state 1) = uKernel_SCHEDULED
   \<and> uKernelGetTaskStatus full_state 1 = uKernel_ERROR"
  by (simp add: full_state_def one_task_state_def uKernelGetTaskStatus_def)

text \<open>
  C5, amended. \<open>uKernelGetTaskStatus\<close> returns \<open>uKernel_ERROR\<close> when the kernel is not
  initialised, when the task counter equals \<open>MAX_TASKS_NUMBER\<close> (255) or when the
  descriptor is null, and the stored status of the descriptor in every other case.
\<close>

theorem uKernelGetTaskStatus_result:
  "uKernelGetTaskStatus s d =
     (if initialized s = 0 \<or> numberTasks s = MAX_TASKS_NUMBER \<or> d = NULL
      then uKernel_ERROR else taskStatus (heap s d))"
  by (simp add: uKernelGetTaskStatus_def)

theorem uKernelGetTaskStatus_result_witness:
  "uKernelGetTaskStatus onetime_state 1 = uKernel_ONETIME
   \<and> uKernelGetTaskStatus boot_state 1 = uKernel_ERROR"
  using uKernelGetTaskStatus_result [of onetime_state 1]
    uKernelGetTaskStatus_result [of boot_state 1]
  by (simp add: onetime_state_def one_task_state_def boot_state_def)

section \<open>Blocking delay\<close>

text \<open>
  The polling loop compares unsigned: it exits with the larger of the counter and
  \<open>newTime\<close>.
\<close>

lemma delay_poll_below: "c \<le> newTime \<Longrightarrow> delay_poll newTime c = newTime"
proof (induction newTime c rule: delay_poll.induct)
  case (1 newTime c)
  show ?case
  proof (cases "c < newTime")
    case True
    then have "c + 1 \<le> newTime" by (simp add: inc_le)
    with True "1.IH" show ?thesis by simp
  next
    case False
    with "1.prems" have "c = newTime" by simp
    then show ?thesis by simp
  qed
qed

lemma delay_poll_above: "newTime \<le> c \<Longrightarrow> delay_poll newTime c = c"
  by (simp add: leD)

lemma delay_poll_max: "delay_poll newTime c = max newTime c"
  by (cases "c \<le> newTime")
    (auto simp: delay_poll_below delay_poll_above max_def simp del: delay_poll.simps)

text \<open>
  When \<open>_counterMs + delay\<close> does not overflow, the delay ends exactly when the counter
  reaches that sum; when it overflows, the delay ends at once.
\<close>

lemma unat_ucast_delay: "unat (ucast (delay :: 16 word) :: 32 word) = unat delay"
proof -
  have "unat delay < 2 ^ 16"
    using unsigned_less [of delay] by simp
  then have "unat delay < 2 ^ 32"
    by simp
  then show ?thesis
    by (simp add: unsigned_ucast_eq take_bit_nat_eq_self)
qed

lemma uKernelDelayMiliseconds_no_overflow:
  assumes "unat (counterMs s) + unat delay < 2 ^ 32"
  shows "counterMs (uKernelDelayMiliseconds s delay) = counterMs s + ucast delay"
proof -
  have "unat (ucast delay :: 32 word) = unat delay"
    by (rule unat_ucast_delay)
  with assms have "counterMs s \<le> counterMs s + ucast delay"
    by (simp add: no_olen_add_nat)
  then show ?thesis
    by (simp add: uKernelDelayMiliseconds_def delay_poll_below del: delay_poll.simps)
qed

lemma uKernelDelayMiliseconds_overflow:
  assumes "2 ^ 32 \<le> unat (counterMs s) + unat delay"
  shows "uKernelDelayMiliseconds s delay = s"
proof -
  have "unat (ucast delay :: 32 word) = unat delay"
    by (rule unat_ucast_delay)
  with assms have "\<not> counterMs s \<le> counterMs s + ucast delay"
    by (simp add: no_olen_add_nat)
  then have "counterMs s + ucast delay \<le> counterMs s" by simp
  then show ?thesis
    by (simp add: uKernelDelayMiliseconds_def delay_poll_above del: delay_poll.simps)
qed

text \<open>
  C4. With the counter at 0xFFFFFFF0, a delay of 100 ms computes \<open>newTime\<close> = 84 by
  wrap-around; the unsigned test \<open>_counterMs < newTime\<close> is false at the first poll and
  the delay returns with the counter where it was. The signed difference that the
  dispatch loop tests is negative at that moment (-100): by that test the time has not
  come.
\<close>

theorem uKernelDelayMiliseconds_returns_at_once:
  "counterMs (boot_state\<lparr>counterMs := 0xFFFFFFF0\<rparr>) + ucast (100 :: 16 word) = 84
   \<and> uKernelDelayMiliseconds (boot_state\<lparr>counterMs := 0xFFFFFFF0\<rparr>) 100
       = boot_state\<lparr>counterMs := 0xFFFFFFF0\<rparr>
   \<and> sint (counterMs (boot_state\<lparr>counterMs := 0xFFFFFFF0\<rparr>)
             - (counterMs (boot_state\<lparr>counterMs := 0xFFFFFFF0\<rparr>) + ucast (100 :: 16 word)))
       = - 100"
  by (simp add: uKernelDelayMiliseconds_def boot_state_def)

section \<open>Dispatch\<close>

text \<open>
  C6. When an iteration of the dispatch loop examines a descriptor (the cursor is not
  null and the task counter is not zero) whose status is not \<open>uKernel_PAUSED\<close>, it calls
  the task body of that descriptor exactly when \<open>_counterMs - plannedTask\<close>, read as a
  signed 32-bit value, is not negative. So a task planned at the largest counter value
  minus 5 is called when the counter, after wrapping around, stands at 3.
\<close>

theorem dispatch_due_test:
  assumes "pTaskSchedule s \<noteq> NULL" and "numberTasks s \<noteq> 0"
    and "taskStatus (heap s (pTaskSchedule s)) \<noteq> uKernel_PAUSED"
  shows "((Call (pTaskSchedule s) (taskPointer (heap s (pTaskSchedule s)))
            \<in> set (fst (uKernelScheduler_iteration call s)))
          = (0 \<le> sint (counterMs s - plannedTask (heap s (pTaskSchedule s)))))
       \<and> (plannedTask (heap s (pTaskSchedule s)) = 0xFFFFFFFF - 5 \<and> counterMs s = 3
          \<longrightarrow> Call (pTaskSchedule s) (taskPointer (heap s (pTaskSchedule s)))
                \<in> set (fst (uKernelScheduler_iteration call s)))"
  using assms
  by (auto simp: uKernelScheduler_iteration_def Let_def word_gt_0 split: sum.splits)

theorem dispatch_due_test_witness:
  "pTaskSchedule wrapped_state \<noteq> NULL \<and> numberTasks wrapped_state \<noteq> 0
   \<and> taskStatus (heap wrapped_state (pTaskSchedule wrapped_state)) \<noteq> uKernel_PAUSED
   \<and> plannedTask (heap wrapped_state (pTaskSchedule wrapped_state)) = 0xFFFFFFFF - 5
   \<and> counterMs wrapped_state = 3
   \<and> sint (counterMs wrapped_state
            - plannedTask (heap wrapped_state (pTaskSchedule wrapped_state))) = 9
   \<and> Call 1 1 \<in> set (fst (uKernelScheduler_iteration (\<lambda>f s. Inr s) wrapped_state))"
proof -
  have cursor: "pTaskSchedule wrapped_state \<noteq> NULL"
    and count: "numberTasks wrapped_state \<noteq> 0"
    and status: "taskStatus (heap wrapped_state (pTaskSchedule wrapped_state)) \<noteq> uKernel_PAUSED"
    by (simp_all add: wrapped_state_def one_task_state_def)
  have fields: "plannedTask (heap wrapped_state (pTaskSchedule wrapped_state)) = 0xFFFFFFFF - 5"
    "counterMs wrapped_state = 3" "pTaskSchedule wrapped_state = 1"
    "taskPointer (heap wrapped_state 1) = 1"
    by (simp_all add: wrapped_state_def one_task_state_def)
  from dispatch_due_test [OF cursor count status, of "\<lambda>f s. Inr s"] fields
  show ?thesis using count status by simp
qed

section \<open>One-shot tasks\<close>















section \<open>Stored status\<close>

lemma two_bit_no_immediatestart:
  fixes w :: "8 word"
  assumes "w \<le> 3"
  shows "w AND 0x04 = 0"
proof -
  from assms have "unat w \<le> 3" by (simp add: word_le_nat_alt)
  then consider "unat w = 0" | "unat w = 1" | "unat w = 2" | "unat w = 3" by arith
  then show ?thesis
  proof cases
    case 1
    then have "w = 0" by (simp add: unat_eq_0)
    then show ?thesis by simp
  next
    case 2
    then have "w = 1" by (simp add: word_unat_eq_iff)
    then show ?thesis by simp
  next
    case 3
    then have "w = 2" by (simp add: word_unat_eq_iff)
    then show ?thesis by simp
  next
    case 4
    then have "w = 3" by (simp add: word_unat_eq_iff)
    then show ?thesis by simp
  qed
qed

lemma and3_le: "(w :: 8 word) AND 3 \<le> 3"
  by (rule word_and_le1)

lemma set_next_status [simp]: "taskStatus (set_next h p q x) = taskStatus (h x)"
  by (simp add: set_next_def)

text \<open>What each operation does to the stored status of a descriptor \<open>x\<close>.\<close>

lemma uKernelAddTask_status:
  assumes "uKernelAddTask s d f i st = Some (Inr (b, s'))"
  shows "taskStatus (heap s' x) =
     (if b \<and> d \<noteq> NULL \<and> x = d
      then (if st > uKernel_ONETIME_IMMEDIATESTART then uKernel_SCHEDULED else st) AND 0x03
      else taskStatus (heap s x))"
  using assms
  by (auto simp: uKernelAddTask_def Let_def add_common_def
      split: if_splits option.splits sum.splits)

lemma uKernelRemoveTask_status:
  assumes "uKernelRemoveTask s d = Some (Inr (b, s'))"
  shows "taskStatus (heap s' x) = taskStatus (heap s x)"
  using assms
  by (auto simp: uKernelRemoveTask_def Let_def split: if_splits option.splits sum.splits)

lemma uKernelSetTask_status:
  assumes "uKernelSetTask s d i st = (b, s')"
  shows "taskStatus (heap s' x) = (if b \<and> x = d then st else taskStatus (heap s x))"
  using assms
  by (auto simp: uKernelSetTask_def Let_def split: if_splits)

lemma uKernelModifyTask_status:
  assumes "uKernelModifyTask s d i st = (b, s')"
  shows "taskStatus (heap s' x) = (if b \<and> x = d then st else taskStatus (heap s x))"
  using assms
  by (auto simp: uKernelModifyTask_def Let_def split: if_splits)

lemma iteration_two_bit:
  assumes it: "uKernelScheduler_iteration call s = (tr, Inr s')"
    and cb: "\<forall>f s s' x. call f s = Inr s' \<longrightarrow> taskStatus (heap s x) \<le> 3
                \<longrightarrow> taskStatus (heap s' x) \<le> 3"
    and x: "taskStatus (heap s x) \<le> 3"
  shows "taskStatus (heap s' x) \<le> 3"
proof -
  let ?p = "pTaskSchedule s"
  let ?f = "taskPointer (heap s ?p)"
  let ?s0 = "s\<lparr>heap := (heap s)(?p := (heap s ?p)
                \<lparr>plannedTask := counterMs s + userTasksInterval (heap s ?p)\<rparr>)\<rparr>"
  have s0: "taskStatus (heap ?s0 x) \<le> 3" using x by auto
  have c1: "\<And>s1. call ?f s = Inr s1 \<Longrightarrow> taskStatus (heap s1 x) \<le> 3"
    using cb x by blast
  have c2: "\<And>s1. call ?f ?s0 = Inr s1 \<Longrightarrow> taskStatus (heap s1 x) \<le> 3"
    using cb s0 by blast
  show ?thesis
    using it x c1 c2
    by (auto simp: uKernelScheduler_iteration_def Let_def advance_cursor_def
        split: if_splits sum.splits)
qed

lemma reachable_two_bit:
  assumes r: "reachable call s R"
    and cb: "\<forall>f s s' x. call f s = Inr s' \<longrightarrow> taskStatus (heap s x) \<le> 3
                \<longrightarrow> taskStatus (heap s' x) \<le> 3"
  shows "\<forall>d\<in>R. taskStatus (heap s d) \<le> 3"
  using r
proof (induction rule: reachable.induct)
  case (r_init s)
  then show ?case by simp
next
  case (r_add s R d f i st s')
  then show ?case
    by (auto simp: uKernelAddTask_status [OF r_add.hyps(3)] and3_le)
next
  case (r_purge s R f i st s')
  then show ?case by simp
next
  case (r_remove s R d s')
  then show ?case
    by (simp add: uKernelRemoveTask_status [OF r_remove.hyps(2)])
next
  case (r_pause s R d b s')
  then show ?case
    by (auto simp: uKernelSetTask_status [OF r_pause.hyps(2) [unfolded uKernelPauseTask_def]])
next
  case (r_resume s R st d b s')
  then show ?case
    by (auto simp: uKernelSetTask_status [OF r_resume.hyps(3) [unfolded uKernelResumeTask_def]])
next
  case (r_modify s R st d i b s')
  then show ?case
    by (auto simp: uKernelModifyTask_status [OF r_modify.hyps(3)])
next
  case (r_tick s R c)
  then show ?case by simp
next
  case (r_dispatch s R tr s')
  then show ?case
    using iteration_two_bit [OF r_dispatch.hyps(2) cb] by blast
qed

text \<open>
  C3, as stated, fails. Registering descriptor 1 with \<open>uKernel_ONETIME_IMMEDIATESTART\<close>
  (0x07) stores the status 3, which is none of \<open>uKernel_PAUSED\<close>, \<open>uKernel_SCHEDULED\<close> and
  \<open>uKernel_ONETIME\<close>. And \<open>uKernelModifyTask\<close> on a registered descriptor with
  \<open>uKernel_IMMEDIATESTART\<close> (0x05) stores 0x05, with the bit 0x04 set.
\<close>

theorem stored_status_counterexample:
  "uKernelAddTask (uKernelInit boot_state) 1 1 0 uKernel_ONETIME_IMMEDIATESTART
     = Some (Inr (True, immediate_onetime_state))
   \<and> taskStatus (heap immediate_onetime_state 1) = 3
   \<and> uKernelModifyTask one_task_state 1 100 uKernel_IMMEDIATESTART
     = (True, one_task_state\<lparr>heap := (heap one_task_state)
          (1 := (heap one_task_state 1)
             \<lparr>plannedTask := 0, taskStatus := uKernel_IMMEDIATESTART\<rparr>)\<rparr>)
   \<and> uKernel_IMMEDIATESTART AND 0x04 \<noteq> 0"
proof -
  have "taskStatus (heap immediate_onetime_state 1) = 3
      \<and> uKernelModifyTask one_task_state 1 100 uKernel_IMMEDIATESTART
        = (True, one_task_state\<lparr>heap := (heap one_task_state)
             (1 := (heap one_task_state 1)
                \<lparr>plannedTask := 0, taskStatus := uKernel_IMMEDIATESTART\<rparr>)\<rparr>)
      \<and> uKernel_IMMEDIATESTART AND 0x04 \<noteq> 0"
    by (simp add: immediate_onetime_state_def uKernelModifyTask_def one_task_state_def)
  with immediate_onetime_state_registered show ?thesis by (rule conjI)
qed

text \<open>
  C3, amended. Take any state reached from \<open>uKernelInit\<close> by registrations, purges,
  removals, pauses, counter ticks, dispatch iterations, and calls of \<open>uKernelResumeTask\<close>
  and \<open>uKernelModifyTask\<close> whose status argument is at most 3, where the task bodies keep
  a two-bit status two-bit. Every descriptor registered and not removed since has a stored
  status of at most 3 (\<open>uKernel_PAUSED\<close>, \<open>uKernel_SCHEDULED\<close>, \<open>uKernel_ONETIME\<close>, or 3,
  the two low bits of \<open>uKernel_ONETIME_IMMEDIATESTART\<close>), so the bit 0x04 is not stored.
\<close>

theorem registered_status_two_bit:
  assumes "reachable call s R" and "d \<in> R"
    and "\<forall>f s s' x. call f s = Inr s' \<longrightarrow> taskStatus (heap s x) \<le> 3
            \<longrightarrow> taskStatus (heap s' x) \<le> 3"
  shows "taskStatus (heap s d) \<le> 3 \<and> taskStatus (heap s d) AND 0x04 = 0"
proof -
  from reachable_two_bit [OF assms(1) assms(3)] assms(2)
  have "taskStatus (heap s d) \<le> 3" by blast
  then show ?thesis by (simp add: two_bit_no_immediatestart)
qed

theorem registered_status_two_bit_witness:
  "reachable (\<lambda>f s. Inr s) immediate_onetime_state {1}
   \<and> (1::addr) \<in> {1}
   \<and> taskStatus (heap immediate_onetime_state 1) \<le> 3
   \<and> taskStatus (heap immediate_onetime_state 1) AND 0x04 = 0"
proof -
  have one: "(1::addr) \<noteq> NULL" by simp
  have r: "reachable (\<lambda>f s. Inr s) immediate_onetime_state {1}"
    using r_add [OF r_init one immediate_onetime_state_registered] by simp
  have m: "(1::addr) \<in> {1}" by simp
  have cb: "\<forall>f s s' x. (\<lambda>f s. Inr s) f s = (Inr s' :: error + kstate)
         \<longrightarrow> taskStatus (heap s x) \<le> 3 \<longrightarrow> taskStatus (heap s' x) \<le> 3"
    by simp
  from registered_status_two_bit [OF r m cb] r
  show ?thesis by simp
qed

end
